theory Spec2Isabelle
  imports Main "HOL-Library.Word" "HOL-Library.Monad_Syntax"
begin

unbundle bit_operations_syntax

section \<open>The Aquacomputer Octo hwmon driver (aquacomputer-octo.c)\<close>

text \<open>
  The driver receives HID status reports (report ID 1) from the fan controller, decodes
  the sensor fields found at fixed byte offsets of the report into a per-device
  structure, and serves the decoded values and their labels to the hwmon core.

  The C integer types are words of their width on an LP64 kernel: \<open>u8\<close>, \<open>u16\<close>,
  \<open>u32\<close>, \<open>s32\<close> (a 32-bit word read with \<open>sint\<close>), \<open>unsigned long\<close> and
  \<open>long\<close> (64-bit words, the latter read with \<open>sint\<close>).
\<close>

type_synonym u8 = "8 word"
type_synonym u16 = "16 word"
type_synonym u32 = "32 word"
type_synonym s32 = "32 word"
type_synonym c_int = "32 word"
type_synonym ulong = "64 word"
type_synonym long = "64 word"

subsection \<open>Constants\<close>

definition OCTO_STATUS_REPORT_ID :: u32 where "OCTO_STATUS_REPORT_ID = 0x01"

text \<open>
  \<open>HZ\<close>, the number of jiffies per second, is a configuration constant of the kernel
  the driver is built for; it is a parameter \<open>hz\<close> of everything that uses the interval.
\<close>

definition OCTO_STATUS_UPDATE_INTERVAL :: "ulong \<Rightarrow> ulong" where
  "OCTO_STATUS_UPDATE_INTERVAL hz = 2 * hz"

text \<open>Error numbers of the kernel's errno headers; the driver returns them negated.\<close>

definition ENOMEM :: int where "ENOMEM = 12"
definition ENODATA :: int where "ENODATA = 61"
definition EOPNOTSUPP :: int where "EOPNOTSUPP = 95"

text \<open>Register offsets for the Octo.\<close>

definition OCTO_SERIAL_FIRST_PART :: nat where "OCTO_SERIAL_FIRST_PART = 3"
definition OCTO_SERIAL_SECOND_PART :: nat where "OCTO_SERIAL_SECOND_PART = 5"
definition OCTO_FIRMWARE_VERSION :: nat where "OCTO_FIRMWARE_VERSION = 13"
definition OCTO_POWER_CYCLES :: nat where "OCTO_POWER_CYCLES = 24"

definition OCTO_TEMP1 :: nat where "OCTO_TEMP1 = 61"
definition OCTO_TEMP2 :: nat where "OCTO_TEMP2 = 63"
definition OCTO_TEMP3 :: nat where "OCTO_TEMP3 = 65"
definition OCTO_TEMP4 :: nat where "OCTO_TEMP4 = 67"

definition OCTO_FLOW_SPEED :: nat where "OCTO_FLOW_SPEED = 123"
definition OCTO_FAN1_SPEED :: nat where "OCTO_FAN1_SPEED = 133"
definition OCTO_FAN2_SPEED :: nat where "OCTO_FAN2_SPEED = 146"
definition OCTO_FAN3_SPEED :: nat where "OCTO_FAN3_SPEED = 159"
definition OCTO_FAN4_SPEED :: nat where "OCTO_FAN4_SPEED = 172"
definition OCTO_FAN5_SPEED :: nat where "OCTO_FAN5_SPEED = 185"
definition OCTO_FAN6_SPEED :: nat where "OCTO_FAN6_SPEED = 198"
definition OCTO_FAN7_SPEED :: nat where "OCTO_FAN7_SPEED = 211"
definition OCTO_FAN8_SPEED :: nat where "OCTO_FAN8_SPEED = 224"

definition OCTO_FAN1_POWER :: nat where "OCTO_FAN1_POWER = 131"
definition OCTO_FAN2_POWER :: nat where "OCTO_FAN2_POWER = 144"
definition OCTO_FAN3_POWER :: nat where "OCTO_FAN3_POWER = 157"
definition OCTO_FAN4_POWER :: nat where "OCTO_FAN4_POWER = 170"
definition OCTO_FAN5_POWER :: nat where "OCTO_FAN5_POWER = 183"
definition OCTO_FAN6_POWER :: nat where "OCTO_FAN6_POWER = 196"
definition OCTO_FAN7_POWER :: nat where "OCTO_FAN7_POWER = 209"
definition OCTO_FAN8_POWER :: nat where "OCTO_FAN8_POWER = 222"

definition OCTO_VOLTAGE :: nat where "OCTO_VOLTAGE = 117"
definition OCTO_FAN1_VOLTAGE :: nat where "OCTO_FAN1_VOLTAGE = 127"
definition OCTO_FAN2_VOLTAGE :: nat where "OCTO_FAN2_VOLTAGE = 140"
definition OCTO_FAN3_VOLTAGE :: nat where "OCTO_FAN3_VOLTAGE = 153"
definition OCTO_FAN4_VOLTAGE :: nat where "OCTO_FAN4_VOLTAGE = 166"
definition OCTO_FAN5_VOLTAGE :: nat where "OCTO_FAN5_VOLTAGE = 179"
definition OCTO_FAN6_VOLTAGE :: nat where "OCTO_FAN6_VOLTAGE = 192"
definition OCTO_FAN7_VOLTAGE :: nat where "OCTO_FAN7_VOLTAGE = 205"
definition OCTO_FAN8_VOLTAGE :: nat where "OCTO_FAN8_VOLTAGE = 218"

definition OCTO_FAN1_CURRENT :: nat where "OCTO_FAN1_CURRENT = 129"
definition OCTO_FAN2_CURRENT :: nat where "OCTO_FAN2_CURRENT = 142"
definition OCTO_FAN3_CURRENT :: nat where "OCTO_FAN3_CURRENT = 155"
definition OCTO_FAN4_CURRENT :: nat where "OCTO_FAN4_CURRENT = 168"
definition OCTO_FAN5_CURRENT :: nat where "OCTO_FAN5_CURRENT = 181"
definition OCTO_FAN6_CURRENT :: nat where "OCTO_FAN6_CURRENT = 194"
definition OCTO_FAN7_CURRENT :: nat where "OCTO_FAN7_CURRENT = 207"
definition OCTO_FAN8_CURRENT :: nat where "OCTO_FAN8_CURRENT = 220"

subsection \<open>Labels for provided values\<close>

definition label_temps :: "string list" where
  "label_temps = [''Temp1'', ''Temp2'', ''Temp3'', ''Temp4'']"

definition label_speeds :: "string list" where
  "label_speeds =
     [''Flow speed [l/h]'', ''Fan1 speed'', ''Fan2 speed'', ''Fan3 speed'', ''Fan4 speed'',
      ''Fan5 speed'', ''Fan6 speed'', ''Fan7 speed'', ''Fan8 speed'']"

definition label_power :: "string list" where
  "label_power =
     [''Fan1 power'', ''Fan2 power'', ''Fan3 power'', ''Fan4 power'',
      ''Fan5 power'', ''Fan6 power'', ''Fan7 power'', ''Fan8 power'']"

definition label_voltages :: "string list" where
  "label_voltages =
     [''VCC'', ''Fan1 voltage'', ''Fan2 voltage'', ''Fan3 voltage'', ''Fan4 voltage'',
      ''Fan5 voltage'', ''Fan6 voltage'', ''Fan7 voltage'', ''Fan8 voltage'']"

text \<open>
  The macros \<open>L_FAN5_CURRENT\<close> to \<open>L_FAN8_CURRENT\<close> expand to the strings of fans 1 to 4.
\<close>

definition label_current :: "string list" where
  "label_current =
     [''Fan1 current'', ''Fan2 current'', ''Fan3 current'', ''Fan4 current'',
      ''Fan1 current'', ''Fan2 current'', ''Fan3 current'', ''Fan4 current'']"

subsection \<open>The per-device data\<close>

text \<open>
  \<open>struct octo_data\<close>, without its three pointers to kernel objects. The arrays are
  lists; their declared sizes are 4, 9, 8, 9, 8 and 2.
\<close>

record octo_data =
  temp_input :: "s32 list"
  speed_input :: "u16 list"
  power_input :: "u32 list"
  voltage_input :: "u16 list"
  current_input :: "u16 list"
  serial_number :: "u32 list"
  firmware_version :: u16
  power_cycles :: u32
  updated :: ulong

definition octo_data_sized :: "octo_data \<Rightarrow> bool" where
  "octo_data_sized priv \<longleftrightarrow>
     length (temp_input priv) = 4 \<and> length (speed_input priv) = 9 \<and>
     length (power_input priv) = 8 \<and> length (voltage_input priv) = 9 \<and>
     length (current_input priv) = 8 \<and> length (serial_number priv) = 2"

text \<open>
  The sensor types of the hwmon core (\<open>enum hwmon_sensor_types\<close> of linux/hwmon.h).
\<close>

datatype hwmon_sensor_types =
  hwmon_chip | hwmon_temp | hwmon_in | hwmon_curr | hwmon_power | hwmon_energy
  | hwmon_humidity | hwmon_fan | hwmon_pwm | hwmon_intrusion | hwmon_max

text \<open>
  What a call of the driver can do besides returning normally: return a negative error
  number, or index an array outside its bounds. The C code has no check before any of its
  array accesses, so an access outside the array is no error return of the driver: C leaves
  its behaviour undefined.
\<close>

datatype fault = Errno int | OutOfBounds

definition array_at :: "'a list \<Rightarrow> int \<Rightarrow> 'a option" where
  "array_at xs i = (if 0 \<le> i \<and> i < int (length xs) then Some (xs ! nat i) else None)"

subsection \<open>Reading the report buffer\<close>

text \<open>
  \<open>get_unaligned_be16(data + off)\<close> and \<open>get_unaligned_be32(data + off)\<close> combine
  the bytes at \<open>off\<close>, most significant first: \<open>p[0] << 8 | p[1]\<close> and
  \<open>p[0] << 24 | p[1] << 16 | p[2] << 8 | p[3]\<close>. The list \<open>p\<close> is the memory that
  \<open>data\<close> points to; a read that does not lie inside it is \<open>None\<close>.
\<close>

definition be16_bytes :: "u8 \<Rightarrow> u8 \<Rightarrow> u16" where
  "be16_bytes b0 b1 = push_bit 8 (ucast b0) OR ucast b1"

definition be32_bytes :: "u8 \<Rightarrow> u8 \<Rightarrow> u8 \<Rightarrow> u8 \<Rightarrow> u32" where
  "be32_bytes b0 b1 b2 b3 =
     push_bit 24 (ucast b0) OR push_bit 16 (ucast b1) OR push_bit 8 (ucast b2) OR ucast b3"

definition get_unaligned_be16 :: "u8 list \<Rightarrow> nat \<Rightarrow> u16 option" where
  "get_unaligned_be16 p off =
     (if off + 2 \<le> length p then Some (be16_bytes (p ! off) (p ! (off + 1))) else None)"

definition get_unaligned_be32 :: "u8 list \<Rightarrow> nat \<Rightarrow> u32 option" where
  "get_unaligned_be32 p off =
     (if off + 4 \<le> length p
      then Some (be32_bytes (p ! off) (p ! (off + 1)) (p ! (off + 2)) (p ! (off + 3)))
      else None)"

text \<open>
  The arithmetic of the assignments. A \<open>u16\<close> operand is promoted to \<open>int\<close>, the
  operation is done on \<open>int\<close>, and the result is converted to the type of the field it is
  stored in. The products stay below \<open>2 ^ 31\<close> and the operands are not negative, so word
  multiplication and division are those of C.
\<close>

definition int_of_u16 :: "u16 \<Rightarrow> c_int" where
  "int_of_u16 x = ucast x"

definition s32_of_int :: "c_int \<Rightarrow> s32" where
  "s32_of_int x = x"

definition u32_of_int :: "c_int \<Rightarrow> u32" where
  "u32_of_int x = x"

definition u16_of_int :: "c_int \<Rightarrow> u16" where
  "u16_of_int x = ucast x"

definition u32_of_u16 :: "u16 \<Rightarrow> u32" where
  "u32_of_u16 x = ucast x"

subsection \<open>octo\_raw\_event\<close>

text \<open>
  The arguments are the device data, the value of \<open>jiffies\<close>, \<open>report->id\<close>, the
  memory at \<open>data\<close> and \<open>size\<close>, which the function never uses. The result is
  the returned \<open>int\<close> and the device data after the call, or \<open>None\<close> when a read
  falls outside the memory at \<open>data\<close>. The function assigns every element of each
  array, which is written as the assignment of the whole array.
\<close>

definition octo_raw_event ::
  "octo_data \<Rightarrow> ulong \<Rightarrow> u32 \<Rightarrow> u8 list \<Rightarrow> int \<Rightarrow> (int \<times> octo_data) option" where
  "octo_raw_event priv jiffies report_id data size' =
     (if report_id \<noteq> OCTO_STATUS_REPORT_ID then Some (0, priv)
      else do {
        sn0 \<leftarrow> get_unaligned_be16 data OCTO_SERIAL_FIRST_PART;
        sn1 \<leftarrow> get_unaligned_be16 data OCTO_SERIAL_SECOND_PART;
        fw \<leftarrow> get_unaligned_be16 data OCTO_FIRMWARE_VERSION;
        pc \<leftarrow> get_unaligned_be32 data OCTO_POWER_CYCLES;
        t1 \<leftarrow> get_unaligned_be16 data OCTO_TEMP1;
        t2 \<leftarrow> get_unaligned_be16 data OCTO_TEMP2;
        t3 \<leftarrow> get_unaligned_be16 data OCTO_TEMP3;
        t4 \<leftarrow> get_unaligned_be16 data OCTO_TEMP4;
        s0 \<leftarrow> get_unaligned_be16 data OCTO_FLOW_SPEED;
        s1 \<leftarrow> get_unaligned_be16 data OCTO_FAN1_SPEED;
        s2 \<leftarrow> get_unaligned_be16 data OCTO_FAN2_SPEED;
        s3 \<leftarrow> get_unaligned_be16 data OCTO_FAN3_SPEED;
        s4 \<leftarrow> get_unaligned_be16 data OCTO_FAN4_SPEED;
        s5 \<leftarrow> get_unaligned_be16 data OCTO_FAN5_SPEED;
        s6 \<leftarrow> get_unaligned_be16 data OCTO_FAN6_SPEED;
        s7 \<leftarrow> get_unaligned_be16 data OCTO_FAN7_SPEED;
        s8 \<leftarrow> get_unaligned_be16 data OCTO_FAN8_SPEED;
        p1 \<leftarrow> get_unaligned_be16 data OCTO_FAN1_POWER;
        p2 \<leftarrow> get_unaligned_be16 data OCTO_FAN2_POWER;
        p3 \<leftarrow> get_unaligned_be16 data OCTO_FAN3_POWER;
        p4 \<leftarrow> get_unaligned_be16 data OCTO_FAN4_POWER;
        p5 \<leftarrow> get_unaligned_be16 data OCTO_FAN5_POWER;
        p6 \<leftarrow> get_unaligned_be16 data OCTO_FAN6_POWER;
        p7 \<leftarrow> get_unaligned_be16 data OCTO_FAN7_POWER;
        p8 \<leftarrow> get_unaligned_be16 data OCTO_FAN8_POWER;
        v0 \<leftarrow> get_unaligned_be16 data OCTO_VOLTAGE;
        v1 \<leftarrow> get_unaligned_be16 data OCTO_FAN1_VOLTAGE;
        v2 \<leftarrow> get_unaligned_be16 data OCTO_FAN2_VOLTAGE;
        v3 \<leftarrow> get_unaligned_be16 data OCTO_FAN3_VOLTAGE;
        v4 \<leftarrow> get_unaligned_be16 data OCTO_FAN4_VOLTAGE;
        v5 \<leftarrow> get_unaligned_be16 data OCTO_FAN5_VOLTAGE;
        v6 \<leftarrow> get_unaligned_be16 data OCTO_FAN6_VOLTAGE;
        v7 \<leftarrow> get_unaligned_be16 data OCTO_FAN7_VOLTAGE;
        v8 \<leftarrow> get_unaligned_be16 data OCTO_FAN8_VOLTAGE;
        c1 \<leftarrow> get_unaligned_be16 data OCTO_FAN1_CURRENT;
        c2 \<leftarrow> get_unaligned_be16 data OCTO_FAN2_CURRENT;
        c3 \<leftarrow> get_unaligned_be16 data OCTO_FAN3_CURRENT;
        c4 \<leftarrow> get_unaligned_be16 data OCTO_FAN4_CURRENT;
        c5 \<leftarrow> get_unaligned_be16 data OCTO_FAN5_CURRENT;
        c6 \<leftarrow> get_unaligned_be16 data OCTO_FAN6_CURRENT;
        c7 \<leftarrow> get_unaligned_be16 data OCTO_FAN7_CURRENT;
        c8 \<leftarrow> get_unaligned_be16 data OCTO_FAN8_CURRENT;
        Some (0, priv\<lparr>
          serial_number := [u32_of_u16 sn0, u32_of_u16 sn1],
          firmware_version := fw,
          power_cycles := pc,
          temp_input :=
            [s32_of_int (int_of_u16 t1 * 10), s32_of_int (int_of_u16 t2 * 10),
             s32_of_int (int_of_u16 t3 * 10), s32_of_int (int_of_u16 t4 * 10)],
          speed_input :=
            [u16_of_int (int_of_u16 s0 div 10), s1, s2, s3, s4, s5, s6, s7, s8],
          power_input :=
            [u32_of_int (int_of_u16 p1 * 10000), u32_of_int (int_of_u16 p2 * 10000),
             u32_of_int (int_of_u16 p3 * 10000), u32_of_int (int_of_u16 p4 * 10000),
             u32_of_int (int_of_u16 p5 * 10000), u32_of_int (int_of_u16 p6 * 10000),
             u32_of_int (int_of_u16 p7 * 10000), u32_of_int (int_of_u16 p8 * 10000)],
          voltage_input :=
            [u16_of_int (int_of_u16 v0 * 10), u16_of_int (int_of_u16 v1 * 10),
             u16_of_int (int_of_u16 v2 * 10), u16_of_int (int_of_u16 v3 * 10),
             u16_of_int (int_of_u16 v4 * 10), u16_of_int (int_of_u16 v5 * 10),
             u16_of_int (int_of_u16 v6 * 10), u16_of_int (int_of_u16 v7 * 10),
             u16_of_int (int_of_u16 v8 * 10)],
          current_input := [c1, c2, c3, c4, c5, c6, c7, c8],
          updated := jiffies\<rparr>)
      })"

subsection \<open>octo\_read and octo\_read\_string\<close>

text \<open>
  \<open>time_after(a, b)\<close> of linux/jiffies.h is \<open>(long)((b) - (a)) < 0\<close>.
\<close>

definition time_after :: "ulong \<Rightarrow> ulong \<Rightarrow> bool" where
  "time_after a b \<longleftrightarrow> sint (b - a) < 0"

text \<open>The conversions to \<open>long\<close> of the assignments to \<open>*val\<close>.\<close>

definition long_of_s32 :: "s32 \<Rightarrow> long" where
  "long_of_s32 x = scast x"

definition long_of_u16 :: "u16 \<Rightarrow> long" where
  "long_of_u16 x = ucast x"

definition long_of_u32 :: "u32 \<Rightarrow> long" where
  "long_of_u32 x = ucast x"

definition stored :: "('a \<Rightarrow> long) \<Rightarrow> 'a list \<Rightarrow> int \<Rightarrow> fault + long" where
  "stored conv xs channel =
     (case array_at xs channel of None \<Rightarrow> Inl OutOfBounds | Some x \<Rightarrow> Inr (conv x))"

text \<open>
  \<open>Inr v\<close> is the return of 0 with \<open>v\<close> stored in \<open>*val\<close>; \<open>Inl (Errno e)\<close> is the
  return of \<open>e\<close>.
\<close>

definition octo_read ::
  "octo_data \<Rightarrow> ulong \<Rightarrow> ulong \<Rightarrow> hwmon_sensor_types \<Rightarrow> u32 \<Rightarrow> int \<Rightarrow> fault + long" where
  "octo_read priv jiffies hz type attr channel =
     (if time_after jiffies (updated priv + OCTO_STATUS_UPDATE_INTERVAL hz)
      then Inl (Errno (- ENODATA))
      else (case type of
              hwmon_temp \<Rightarrow> stored long_of_s32 (temp_input priv) channel
            | hwmon_fan \<Rightarrow> stored long_of_u16 (speed_input priv) channel
            | hwmon_power \<Rightarrow> stored long_of_u32 (power_input priv) channel
            | hwmon_in \<Rightarrow> stored long_of_u16 (voltage_input priv) channel
            | hwmon_curr \<Rightarrow> stored long_of_u16 (current_input priv) channel
            | _ \<Rightarrow> Inl (Errno (- EOPNOTSUPP))))"

definition label_at :: "string list \<Rightarrow> int \<Rightarrow> fault + string" where
  "label_at xs channel =
     (case array_at xs channel of None \<Rightarrow> Inl OutOfBounds | Some s \<Rightarrow> Inr s)"

text \<open>
  \<open>octo_read_string\<close> receives the device and does not look at it; \<open>Inr s\<close> is the
  return of 0 with \<open>s\<close> stored in \<open>*str\<close>.
\<close>

definition octo_read_string ::
  "octo_data \<Rightarrow> hwmon_sensor_types \<Rightarrow> u32 \<Rightarrow> int \<Rightarrow> fault + string" where
  "octo_read_string priv type attr channel =
     (case type of
        hwmon_temp \<Rightarrow> label_at label_temps channel
      | hwmon_fan \<Rightarrow> label_at label_speeds channel
      | hwmon_power \<Rightarrow> label_at label_power channel
      | hwmon_in \<Rightarrow> label_at label_voltages channel
      | hwmon_curr \<Rightarrow> label_at label_current channel
      | _ \<Rightarrow> Inl (Errno (- EOPNOTSUPP)))"

subsection \<open>The debugfs files\<close>

text \<open>
  \<open>seq_printf\<close> with the conversions \<open>%u\<close> and \<open>%05u\<close>: the decimal digits of an
  unsigned number, and the same padded with zeros on the left to at least five characters.
\<close>

definition digit_char :: "nat \<Rightarrow> char" where
  "digit_char d = ''0123456789'' ! (d mod 10)"

fun fmt_u :: "nat \<Rightarrow> string" where
  "fmt_u n = (if n < 10 then [digit_char n] else fmt_u (n div 10) @ [digit_char (n mod 10)])"

declare fmt_u.simps [simp del]

definition fmt_05u :: "nat \<Rightarrow> string" where
  "fmt_05u n = replicate (5 - length (fmt_u n)) (CHR ''0'') @ fmt_u n"

definition serial_number_show :: "octo_data \<Rightarrow> fault + string" where
  "serial_number_show priv =
     (case (array_at (serial_number priv) 0, array_at (serial_number priv) 1) of
        (Some a, Some b) \<Rightarrow> Inr (fmt_05u (unat a) @ ''-'' @ fmt_05u (unat b) @ [CHR 0x0A])
      | _ \<Rightarrow> Inl OutOfBounds)"

definition firmware_version_show :: "octo_data \<Rightarrow> fault + string" where
  "firmware_version_show priv = Inr (fmt_u (unat (firmware_version priv)) @ [CHR 0x0A])"

definition power_cycles_show :: "octo_data \<Rightarrow> fault + string" where
  "power_cycles_show priv = Inr (fmt_u (unat (power_cycles priv)) @ [CHR 0x0A])"

subsection \<open>octo\_probe\<close>

text \<open>
  The results of the kernel services that \<open>octo_probe\<close> calls: whether the allocation
  succeeds, the return values of \<open>hid_parse\<close>, \<open>hid_hw_start\<close> and \<open>hid_hw_open\<close>, and
  the error of \<open>hwmon_device_register_with_info\<close> (0 when it returns a device).
\<close>

record probe_env =
  kzalloc_ok :: bool
  hid_parse_ret :: int
  hid_hw_start_ret :: int
  hid_hw_open_ret :: int
  hwmon_register_err :: int

text \<open>The zeroed structure that \<open>devm_kzalloc\<close> returns.\<close>

definition kzalloc_octo_data :: octo_data where
  "kzalloc_octo_data =
     \<lparr>temp_input = replicate 4 0, speed_input = replicate 9 0, power_input = replicate 8 0,
      voltage_input = replicate 9 0, current_input = replicate 8 0,
      serial_number = replicate 2 0, firmware_version = 0, power_cycles = 0, updated = 0\<rparr>"

text \<open>
  The result is the returned \<open>int\<close> and, when the probe succeeds, the device data it
  leaves attached to the device (a failed probe releases the allocation).
\<close>

definition octo_probe :: "probe_env \<Rightarrow> ulong \<Rightarrow> ulong \<Rightarrow> int \<times> octo_data option" where
  "octo_probe env jiffies hz =
     (if \<not> kzalloc_ok env then (- ENOMEM, None)
      else let priv = kzalloc_octo_data\<lparr>updated := jiffies - OCTO_STATUS_UPDATE_INTERVAL hz\<rparr>
        in if hid_parse_ret env \<noteq> 0 then (hid_parse_ret env, None)
           else if hid_hw_start_ret env \<noteq> 0 then (hid_hw_start_ret env, None)
           else if hid_hw_open_ret env \<noteq> 0 then (hid_hw_open_ret env, None)
           else if hwmon_register_err env \<noteq> 0 then (hwmon_register_err env, None)
           else (0, Some priv))"

subsection \<open>The channels registered with the hwmon core\<close>

text \<open>
  \<open>octo_info\<close> registers, for each sensor type, one configuration entry per channel
  (each with the input and the label attribute). The numbers of entries are the sizes of
  the arrays of \<open>struct octo_data\<close> and of the label tables.
\<close>

definition octo_info :: "(hwmon_sensor_types \<times> nat) list" where
  "octo_info =
     [(hwmon_temp, 4), (hwmon_fan, 9), (hwmon_power, 8), (hwmon_in, 9), (hwmon_curr, 8)]"

subsection \<open>Notions used to state the properties\<close>

text \<open>
  The number that two or four bytes at an offset of a report denote when read most
  significant byte first.
\<close>

definition raw16 :: "u8 list \<Rightarrow> nat \<Rightarrow> int" where
  "raw16 p off = 256 * uint (p ! off) + uint (p ! (off + 1))"

definition raw32 :: "u8 list \<Rightarrow> nat \<Rightarrow> int" where
  "raw32 p off =
     16777216 * uint (p ! off) + 65536 * uint (p ! (off + 1)) + 256 * uint (p ! (off + 2))
     + uint (p ! (off + 3))"

text \<open>The sensor readings and the identity data held in the device data.\<close>

definition snapshot_of ::
  "octo_data \<Rightarrow> s32 list \<times> u16 list \<times> u32 list \<times> u16 list \<times> u16 list" where
  "snapshot_of priv =
     (temp_input priv, speed_input priv, power_input priv, voltage_input priv,
      current_input priv)"

definition identity_of :: "octo_data \<Rightarrow> u32 list \<times> u16 \<times> u32" where
  "identity_of priv = (serial_number priv, firmware_version priv, power_cycles priv)"

text \<open>The integer that a channel's field holds.\<close>

fun stored_value :: "octo_data \<Rightarrow> hwmon_sensor_types \<Rightarrow> nat \<Rightarrow> int" where
  "stored_value priv hwmon_temp i = sint (temp_input priv ! i)"
| "stored_value priv hwmon_fan i = uint (speed_input priv ! i)"
| "stored_value priv hwmon_power i = uint (power_input priv ! i)"
| "stored_value priv hwmon_in i = uint (voltage_input priv ! i)"
| "stored_value priv hwmon_curr i = uint (current_input priv ! i)"
| "stored_value priv _ i = 0"

text \<open>
  Reports and environments for the examples: a buffer of 226 zero bytes with the given
  bytes stored at the given offsets, and a probe in which every kernel service succeeds.
\<close>

definition report_with :: "(nat \<times> u8) list \<Rightarrow> u8 list" where
  "report_with bs = fold (\<lambda>(off, b) p. p[off := b]) bs (replicate 226 0)"

definition probe_ok :: probe_env where
  "probe_ok =
     \<lparr>kzalloc_ok = True, hid_parse_ret = 0, hid_hw_start_ret = 0, hid_hw_open_ret = 0,
      hwmon_register_err = 0\<rparr>"

section \<open>Properties\<close>

lemmas octo_offsets =
  OCTO_SERIAL_FIRST_PART_def OCTO_SERIAL_SECOND_PART_def OCTO_FIRMWARE_VERSION_def
  OCTO_POWER_CYCLES_def OCTO_TEMP1_def OCTO_TEMP2_def OCTO_TEMP3_def OCTO_TEMP4_def
  OCTO_FLOW_SPEED_def OCTO_FAN1_SPEED_def OCTO_FAN2_SPEED_def OCTO_FAN3_SPEED_def
  OCTO_FAN4_SPEED_def OCTO_FAN5_SPEED_def OCTO_FAN6_SPEED_def OCTO_FAN7_SPEED_def
  OCTO_FAN8_SPEED_def OCTO_FAN1_POWER_def OCTO_FAN2_POWER_def OCTO_FAN3_POWER_def
  OCTO_FAN4_POWER_def OCTO_FAN5_POWER_def OCTO_FAN6_POWER_def OCTO_FAN7_POWER_def
  OCTO_FAN8_POWER_def OCTO_VOLTAGE_def OCTO_FAN1_VOLTAGE_def OCTO_FAN2_VOLTAGE_def
  OCTO_FAN3_VOLTAGE_def OCTO_FAN4_VOLTAGE_def OCTO_FAN5_VOLTAGE_def OCTO_FAN6_VOLTAGE_def
  OCTO_FAN7_VOLTAGE_def OCTO_FAN8_VOLTAGE_def OCTO_FAN1_CURRENT_def OCTO_FAN2_CURRENT_def
  OCTO_FAN3_CURRENT_def OCTO_FAN4_CURRENT_def OCTO_FAN5_CURRENT_def OCTO_FAN6_CURRENT_def
  OCTO_FAN7_CURRENT_def OCTO_FAN8_CURRENT_def

subsection \<open>Word arithmetic of the conversions\<close>

lemma uint_u8_bound: "uint (x :: u8) < 256"
  using uint_lt2p [of x] by simp

lemma uint_u16_bound: "uint (x :: u16) < 65536"
  using uint_lt2p [of x] by simp

lemma uint_be16_bytes: "uint (be16_bytes b0 b1) = 256 * uint b0 + uint b1"
proof -
  have d: "push_bit 8 (ucast b0 :: 16 word) + ucast b1 = push_bit 8 (ucast b0) OR ucast b1"
    by (rule disjunctive_add_eq_or) (auto simp: bit_eq_iff bit_simps dest: bit_imp_le_length)
  have "uint (push_bit 8 (ucast b0 :: 16 word) + ucast b1) = 256 * uint b0 + uint b1"
    using uint_u8_bound [of b0] uint_u8_bound [of b1]
    by (simp add: uint_word_ariths unsigned_push_bit_eq unsigned_ucast_eq take_bit_eq_mod
        push_bit_eq_mult)
  then show ?thesis by (simp add: be16_bytes_def d)
qed

lemma uint_be32_bytes:
  "uint (be32_bytes b0 b1 b2 b3) =
     16777216 * uint b0 + 65536 * uint b1 + 256 * uint b2 + uint b3"
proof -
  let ?a = "push_bit 24 (ucast b0 :: 32 word)"
  let ?b = "push_bit 16 (ucast b1 :: 32 word)"
  let ?c = "push_bit 8 (ucast b2 :: 32 word)"
  let ?d = "ucast b3 :: 32 word"
  have d1: "?c + ?d = ?c OR ?d"
    by (rule disjunctive_add_eq_or) (auto simp: bit_eq_iff bit_simps dest: bit_imp_le_length)
  have d2: "?b + (?c OR ?d) = ?b OR ?c OR ?d"
    by (rule disjunctive_add_eq_or) (auto simp: bit_eq_iff bit_simps dest: bit_imp_le_length)
  have d3: "?a + (?b OR ?c OR ?d) = ?a OR ?b OR ?c OR ?d"
    by (rule disjunctive_add_eq_or) (auto simp: bit_eq_iff bit_simps dest: bit_imp_le_length)
  have "uint (?a + (?b + (?c + ?d))) =
      16777216 * uint b0 + 65536 * uint b1 + 256 * uint b2 + uint b3"
    using uint_u8_bound [of b0] uint_u8_bound [of b1] uint_u8_bound [of b2]
      uint_u8_bound [of b3]
    by (simp add: uint_word_ariths unsigned_push_bit_eq unsigned_ucast_eq take_bit_eq_mod
        push_bit_eq_mult)
  then show ?thesis by (simp add: be32_bytes_def d1 d2 d3)
qed

lemma uint_int_of_u16: "uint (int_of_u16 x) = uint x"
  using uint_u16_bound [of x]
  by (simp add: int_of_u16_def unsigned_ucast_eq take_bit_eq_mod)

lemma uint_u32_of_u16: "uint (u32_of_u16 x) = uint x"
  using uint_u16_bound [of x]
  by (simp add: u32_of_u16_def unsigned_ucast_eq take_bit_eq_mod)

lemma uint_times_10: "uint (int_of_u16 x * 10) = 10 * uint x"
  using uint_u16_bound [of x] by (simp add: uint_word_ariths uint_int_of_u16)

lemma temp_scaling: "sint (s32_of_int (int_of_u16 x * 10)) = 10 * uint x"
proof -
  have "- 2147483648 \<le> 10 * uint x" "10 * uint x < 2147483648"
    using uint_u16_bound [of x] uint_ge_0 [of x] by linarith+
  then have "signed_take_bit 31 (10 * uint x) = 10 * uint x"
    by (intro signed_take_bit_int_eq_self) simp_all
  then show ?thesis
    by (simp add: s32_of_int_def sint_uint uint_times_10)
qed

lemma flow_scaling: "uint (u16_of_int (int_of_u16 x div 10)) = uint x div 10"
proof -
  have "uint (int_of_u16 x div 10) = uint x div 10"
    by (simp add: uint_div_distrib uint_int_of_u16)
  moreover have "0 \<le> uint x div 10" "uint x div 10 < 65536"
    using uint_u16_bound [of x] uint_ge_0 [of x] by linarith+
  then have "uint x div 10 mod 65536 = uint x div 10"
    by (rule mod_pos_pos_trivial)
  ultimately show ?thesis
    by (simp add: u16_of_int_def unsigned_ucast_eq take_bit_eq_mod)
qed

lemma power_scaling: "uint (u32_of_int (int_of_u16 x * 10000)) = 10000 * uint x"
  using uint_u16_bound [of x] by (simp add: u32_of_int_def uint_word_ariths uint_int_of_u16)

lemma voltage_scaling: "uint (u16_of_int (int_of_u16 x * 10)) = (10 * uint x) mod 65536"
  by (simp add: u16_of_int_def unsigned_ucast_eq take_bit_eq_mod uint_times_10)

subsection \<open>Staleness in terms of elapsed jiffies\<close>

lemma sint_u64_diff:
  fixes x y :: "64 word"
  assumes "unat x < 9223372036854775808" "unat y < 9223372036854775808"
  shows "sint (x - y) = int (unat x) - int (unat y)"
proof -
  have "uint (x - y) = take_bit 64 (int (unat x) - int (unat y))"
    by (simp add: uint_word_ariths take_bit_eq_mod)
  then have "sint (x - y) = signed_take_bit 63 (int (unat x) - int (unat y))"
    by (simp add: sint_uint signed_take_bit_take_bit)
  moreover have "- 9223372036854775808 \<le> int (unat x) - int (unat y)"
    "int (unat x) - int (unat y) < 9223372036854775808"
    using assms by linarith+
  then have "signed_take_bit 63 (int (unat x) - int (unat y)) = int (unat x) - int (unat y)"
    by (intro signed_take_bit_int_eq_self) simp_all
  ultimately show ?thesis by simp
qed

lemma time_after_elapsed:
  assumes hz: "unat hz < 2 ^ 62" and el: "unat (jf - u) < 2 ^ 63"
  shows "time_after jf (u + OCTO_STATUS_UPDATE_INTERVAL hz) \<longleftrightarrow> 2 * unat hz < unat (jf - u)"
proof -
  have H: "unat (2 * hz) = 2 * unat hz"
    using hz by (simp add: unat_word_ariths)
  have e: "u + 2 * hz - jf = 2 * hz - (jf - u)" by simp
  have "sint (2 * hz - (jf - u)) = int (unat (2 * hz)) - int (unat (jf - u))"
    using hz el by (intro sint_u64_diff) (simp_all add: H)
  then have "sint (u + 2 * hz - jf) = 2 * int (unat hz) - int (unat (jf - u))"
    by (simp only: e H)
  then show ?thesis
    unfolding time_after_def OCTO_STATUS_UPDATE_INTERVAL_def by arith
qed

subsection \<open>Conversions to long\<close>

lemma sint_long_of_s32: "sint (long_of_s32 x) = sint x"
proof -
  have "- (2 ^ 63) \<le> sint x" "sint x < 2 ^ 63"
    using sint_ge [of x] sint_lt [of x] by simp_all
  then have "signed_take_bit 63 (sint x) = sint x"
    by (rule signed_take_bit_int_eq_self)
  then show ?thesis by (simp add: long_of_s32_def signed_scast_eq)
qed

lemma sint_long_of_u16: "sint (long_of_u16 x) = uint x"
proof -
  have "- 9223372036854775808 \<le> uint x" "uint x < 9223372036854775808"
    using uint_u16_bound [of x] uint_ge_0 [of x] by linarith+
  then have "signed_take_bit 63 (uint x) = uint x"
    by (intro signed_take_bit_int_eq_self) simp_all
  then show ?thesis by (simp add: long_of_u16_def signed_ucast_eq)
qed

lemma uint_u32_bound: "uint (x :: u32) < 4294967296"
  using uint_lt2p [of x] by simp

lemma sint_long_of_u32: "sint (long_of_u32 x) = uint x"
proof -
  have "- 9223372036854775808 \<le> uint x" "uint x < 9223372036854775808"
    using uint_u32_bound [of x] uint_ge_0 [of x] by linarith+
  then have "signed_take_bit 63 (uint x) = uint x"
    by (intro signed_take_bit_int_eq_self) simp_all
  then show ?thesis by (simp add: long_of_u32_def signed_ucast_eq)
qed

subsection \<open>Array accesses\<close>

lemma array_at_in_range:
  "0 \<le> i \<Longrightarrow> i < int (length xs) \<Longrightarrow> array_at xs i = Some (xs ! nat i)"
  by (simp add: array_at_def)

lemma array_at_out_of_range:
  "i < 0 \<or> int (length xs) \<le> i \<Longrightarrow> array_at xs i = None"
  by (auto simp: array_at_def)

lemma octo_info_cases:
  "map_of octo_info type = Some n \<Longrightarrow>
     type = hwmon_temp \<and> n = 4 \<or> type = hwmon_fan \<and> n = 9 \<or> type = hwmon_power \<and> n = 8
     \<or> type = hwmon_in \<and> n = 9 \<or> type = hwmon_curr \<and> n = 8"
  by (auto simp: octo_info_def split: if_splits)

lemma replicate_small:
  "replicate 5 x = [x, x, x, x, x]" "replicate 4 x = [x, x, x, x]"
  "replicate 3 x = [x, x, x]" "replicate 2 x = [x, x]" "replicate 1 x = [x]"
  by (simp_all add: eval_nat_numeral)

lemmas octo_eval =
  octo_raw_event_def OCTO_STATUS_REPORT_ID_def get_unaligned_be16_def get_unaligned_be32_def
  octo_offsets be16_bytes_def be32_bytes_def kzalloc_octo_data_def int_of_u16_def
  u16_of_int_def s32_of_int_def u32_of_int_def u32_of_u16_def report_with_def

lemmas read_eval =
  octo_read_def time_after_def OCTO_STATUS_UPDATE_INTERVAL_def kzalloc_octo_data_def
  stored_def array_at_def long_of_s32_def long_of_u16_def long_of_u32_def ENODATA_def
  EOPNOTSUPP_def

lemmas show_eval =
  serial_number_show_def firmware_version_show_def power_cycles_show_def array_at_def
  fmt_05u_def fmt_u.simps digit_char_def replicate_small

subsection \<open>What a status report decodes to\<close>

lemma raw_event_decodes:
  assumes "226 \<le> length data"
  shows "\<exists>s. octo_raw_event priv jf OCTO_STATUS_REPORT_ID data sz = Some (0, s)
    \<and> map sint (temp_input s) =
        map (\<lambda>off. 10 * raw16 data off) [OCTO_TEMP1, OCTO_TEMP2, OCTO_TEMP3, OCTO_TEMP4]
    \<and> map uint (speed_input s) =
        raw16 data OCTO_FLOW_SPEED div 10 #
        map (raw16 data)
          [OCTO_FAN1_SPEED, OCTO_FAN2_SPEED, OCTO_FAN3_SPEED, OCTO_FAN4_SPEED,
           OCTO_FAN5_SPEED, OCTO_FAN6_SPEED, OCTO_FAN7_SPEED, OCTO_FAN8_SPEED]
    \<and> map uint (power_input s) =
        map (\<lambda>off. 10000 * raw16 data off)
          [OCTO_FAN1_POWER, OCTO_FAN2_POWER, OCTO_FAN3_POWER, OCTO_FAN4_POWER,
           OCTO_FAN5_POWER, OCTO_FAN6_POWER, OCTO_FAN7_POWER, OCTO_FAN8_POWER]
    \<and> map uint (voltage_input s) =
        map (\<lambda>off. 10 * raw16 data off mod 65536)
          [OCTO_VOLTAGE, OCTO_FAN1_VOLTAGE, OCTO_FAN2_VOLTAGE, OCTO_FAN3_VOLTAGE,
           OCTO_FAN4_VOLTAGE, OCTO_FAN5_VOLTAGE, OCTO_FAN6_VOLTAGE, OCTO_FAN7_VOLTAGE,
           OCTO_FAN8_VOLTAGE]
    \<and> map uint (current_input s) =
        map (raw16 data)
          [OCTO_FAN1_CURRENT, OCTO_FAN2_CURRENT, OCTO_FAN3_CURRENT, OCTO_FAN4_CURRENT,
           OCTO_FAN5_CURRENT, OCTO_FAN6_CURRENT, OCTO_FAN7_CURRENT, OCTO_FAN8_CURRENT]
    \<and> map uint (serial_number s) =
        map (raw16 data) [OCTO_SERIAL_FIRST_PART, OCTO_SERIAL_SECOND_PART]
    \<and> uint (firmware_version s) = raw16 data OCTO_FIRMWARE_VERSION
    \<and> uint (power_cycles s) = raw32 data OCTO_POWER_CYCLES
    \<and> updated s = jf"
  using assms
  by (simp add: octo_raw_event_def get_unaligned_be16_def get_unaligned_be32_def octo_offsets
      uint_be16_bytes raw16_def uint_be32_bytes raw32_def temp_scaling flow_scaling
      power_scaling voltage_scaling uint_u32_of_u16)

lemma raw_event_sized:
  "octo_raw_event priv jf OCTO_STATUS_REPORT_ID data sz = Some (r, s) \<Longrightarrow> octo_data_sized s"
  by (auto simp: octo_raw_event_def octo_data_sized_def bind_eq_Some_conv)

lemma probe_sized: "octo_probe env jf hz = (r, Some p) \<Longrightarrow> octo_data_sized p"
  by (auto simp: octo_probe_def octo_data_sized_def kzalloc_octo_data_def Let_def
      split: if_splits)

lemma scaling_examples:
  "octo_raw_event kzalloc_octo_data 5000 OCTO_STATUS_REPORT_ID
     (report_with [(61, 0x00), (62, 0xC8), (123, 0x00), (124, 0x32), (131, 0x00), (132, 0x01),
                   (117, 0x00), (118, 0x05)]) 226 =
   Some (0,
     \<lparr>temp_input = [2000, 0, 0, 0], speed_input = [5, 0, 0, 0, 0, 0, 0, 0, 0],
      power_input = [10000, 0, 0, 0, 0, 0, 0, 0],
      voltage_input = [50, 0, 0, 0, 0, 0, 0, 0, 0],
      current_input = [0, 0, 0, 0, 0, 0, 0, 0], serial_number = [0, 0],
      firmware_version = 0, power_cycles = 0, updated = 5000\<rparr>)"
  by (simp add: octo_eval)

subsection \<open>Scaling of the sensor readings\<close>

text \<open>
  C1 (the code departs from it): for every status report, decoding takes each channel's
  16-bit big-endian value at its offset and scales it exactly: temperatures times 10, the
  flow speed divided by 10, fan speeds unscaled, powers times 10000, voltages times 10,
  currents unscaled. For all but the voltages \<open>raw_event_decodes\<close> shows it. A
  voltage is multiplied by 10 and then stored in a 16-bit field, which keeps the product
  modulo 65536: with the bytes \<open>0xFF 0xFF\<close> at the offset of the supply voltage the
  stored value is 65526, while ten times the raw value is 655350.
\<close>

theorem voltage_product_truncated:
  "octo_raw_event kzalloc_octo_data 5000 OCTO_STATUS_REPORT_ID
     (report_with [(117, 0xFF), (118, 0xFF)]) 226 =
   Some (0,
     \<lparr>temp_input = [0, 0, 0, 0], speed_input = [0, 0, 0, 0, 0, 0, 0, 0, 0],
      power_input = [0, 0, 0, 0, 0, 0, 0, 0],
      voltage_input = [65526, 0, 0, 0, 0, 0, 0, 0, 0],
      current_input = [0, 0, 0, 0, 0, 0, 0, 0], serial_number = [0, 0],
      firmware_version = 0, power_cycles = 0, updated = 5000\<rparr>)
   \<and> 10 * raw16 (report_with [(117, 0xFF), (118, 0xFF)]) OCTO_VOLTAGE = 655350"
  by (simp add: octo_eval raw16_def)

subsection \<open>Reports with another identifier\<close>

text \<open>
  C5: for every raw report whose report identifier differs from the identifier of the
  status report, \<open>octo_raw_event\<close> returns 0, which is no error to the caller, and
  leaves the device data (sensor readings, identity data and the time of the last update)
  as they were.
\<close>

theorem raw_event_other_report_ignored:
  "report_id \<noteq> OCTO_STATUS_REPORT_ID \<Longrightarrow>
     octo_raw_event priv jiffies report_id data sz = Some (0, priv)"
  by (simp add: octo_raw_event_def)

theorem raw_event_other_report_ignored_witness:
  "(2 :: u32) \<noteq> OCTO_STATUS_REPORT_ID
   \<and> octo_raw_event (kzalloc_octo_data\<lparr>updated := 500\<rparr>) 5000 2
        (report_with [(61, 0x00), (62, 0xC8)]) 226 =
      Some (0, kzalloc_octo_data\<lparr>updated := 500\<rparr>)"
proof -
  have h: "(2 :: u32) \<noteq> OCTO_STATUS_REPORT_ID"
    by (simp add: OCTO_STATUS_REPORT_ID_def)
  show ?thesis
    using h raw_event_other_report_ignored [OF h] by simp
qed

subsection \<open>Labels of the current channels\<close>

text \<open>
  C10: for the current channels, \<open>octo_read_string\<close> returns the same label for
  channel 4 as for channel 0, for 5 as for 1, for 6 as for 2 and for 7 as for 3; the
  labels are \<open>Fan1 current\<close> to \<open>Fan4 current\<close>, twice. A label of a current channel
  does not identify its channel.
\<close>

theorem current_labels_repeat:
  "octo_read_string priv hwmon_curr attr 0 = Inr ''Fan1 current''
   \<and> octo_read_string priv hwmon_curr attr 1 = Inr ''Fan2 current''
   \<and> octo_read_string priv hwmon_curr attr 2 = Inr ''Fan3 current''
   \<and> octo_read_string priv hwmon_curr attr 3 = Inr ''Fan4 current''
   \<and> octo_read_string priv hwmon_curr attr 4 = octo_read_string priv hwmon_curr attr 0
   \<and> octo_read_string priv hwmon_curr attr 5 = octo_read_string priv hwmon_curr attr 1
   \<and> octo_read_string priv hwmon_curr attr 6 = octo_read_string priv hwmon_curr attr 2
   \<and> octo_read_string priv hwmon_curr attr 7 = octo_read_string priv hwmon_curr attr 3"
  by (simp add: octo_read_string_def label_at_def array_at_def label_current_def)

subsection \<open>The device data after the probe\<close>

text \<open>
  C6 (the code departs from it): before the first report every read of a channel fails
  as stale, from the creation of the device data on. \<open>octo_probe\<close> sets the time of
  the last update to the current time less the interval, and \<open>octo_read\<close> reports data
  as stale only when the current time is after the last update plus the interval. At the
  jiffy of the probe the read therefore succeeds and returns the zero of the fresh
  allocation: a probe at jiffy 1000 with \<open>HZ = 250\<close> leaves the last update at 500, and
  a read of temperature channel 0 at jiffy 1000 returns 0.
\<close>

theorem octo_read_at_probe_time:
  "octo_probe probe_ok 1000 250 = (0, Some (kzalloc_octo_data\<lparr>updated := 500\<rparr>))
   \<and> octo_read (kzalloc_octo_data\<lparr>updated := 500\<rparr>) 1000 250 hwmon_temp 0 0 = Inr 0"
  by (simp add: octo_probe_def probe_ok_def read_eval)

text \<open>
  From the next jiffy on, and for as long as the jiffies counter has advanced by less
  than \<open>2 ^ 62\<close>, the read after a probe does fail as stale.
\<close>

lemma octo_read_stale_after_probe:
  assumes p: "octo_probe env j0 hz = (r, Some p)" and hz: "unat hz < 2 ^ 61"
    and el: "0 < unat (j - j0)" "unat (j - j0) < 2 ^ 62"
  shows "octo_read p j hz type attr channel = Inl (Errno (- ENODATA))"
proof -
  have u: "updated p = j0 - 2 * hz"
    using p by (auto simp: octo_probe_def OCTO_STATUS_UPDATE_INTERVAL_def Let_def
        split: if_splits)
  have H: "unat (2 * hz) = 2 * unat hz"
    using hz by (simp add: unat_word_ariths)
  have d: "j - updated p = (j - j0) + 2 * hz"
    by (simp add: u)
  have "unat ((j - j0) + 2 * hz) = (unat (j - j0) + unat (2 * hz)) mod 2 ^ LENGTH(64)"
    by (rule unat_word_ariths)
  then have e: "unat (j - updated p) = unat (j - j0) + 2 * unat hz"
    using el hz by (simp only: d H) simp
  have "time_after j (updated p + OCTO_STATUS_UPDATE_INTERVAL hz)"
    using hz el by (subst time_after_elapsed) (simp_all add: e)
  then show ?thesis
    by (simp add: octo_read_def)
qed

subsection \<open>Reports shorter than the fields read\<close>

lemma replicate_sizes:
  "replicate 9 x = [x, x, x, x, x, x, x, x, x]" "replicate 8 x = [x, x, x, x, x, x, x, x]"
  by (simp_all add: eval_nat_numeral)

lemma bind_always_None: "(\<And>v. f v = None) \<Longrightarrow> Option.bind m f = None"
  by (cases m) simp_all

lemma raw_event_short_buffer:
  assumes "length data < 226"
  shows "octo_raw_event priv jiffies OCTO_STATUS_REPORT_ID data sz = None"
proof -
  have "get_unaligned_be16 data OCTO_FAN8_SPEED = None"
    using assms by (simp add: get_unaligned_be16_def OCTO_FAN8_SPEED_def)
  then show ?thesis
    unfolding octo_raw_event_def
    by (simp only: refl if_False not_True_eq_False not_not)
      (rule bind_always_None, rule bind_always_None, rule bind_always_None,
        rule bind_always_None, rule bind_always_None, rule bind_always_None,
        rule bind_always_None, rule bind_always_None, rule bind_always_None,
        rule bind_always_None, rule bind_always_None, rule bind_always_None,
        rule bind_always_None, rule bind_always_None, rule bind_always_None,
        rule bind_always_None, simp)
qed

text \<open>
  C2 as stated does not hold. It says that a status report whose length is below the 226
  bytes that the fields span is rejected as malformed and leaves the device data as they
  were. \<open>octo_raw_event\<close> never looks at \<open>size\<close> and has no error return: handed a
  report of size 8 in a buffer of 226 bytes, it returns 0, stores the temperature found
  at offset 61 and sets the time of the last update.
\<close>

theorem raw_event_short_report_counterexample:
  "(8 :: int) < 226
   \<and> octo_raw_event kzalloc_octo_data 5000 OCTO_STATUS_REPORT_ID
        (report_with [(61, 0x00), (62, 0xC8)]) 8 =
      Some (0,
        \<lparr>temp_input = [2000, 0, 0, 0], speed_input = [0, 0, 0, 0, 0, 0, 0, 0, 0],
         power_input = [0, 0, 0, 0, 0, 0, 0, 0],
         voltage_input = [0, 0, 0, 0, 0, 0, 0, 0, 0],
         current_input = [0, 0, 0, 0, 0, 0, 0, 0], serial_number = [0, 0],
         firmware_version = 0, power_cycles = 0, updated = 5000\<rparr>)
   \<and> temp_input kzalloc_octo_data = [0, 0, 0, 0] \<and> updated kzalloc_octo_data = 0"
  by (simp add: octo_eval replicate_small replicate_sizes)

lemma raw16_nonneg: "0 \<le> raw16 p off"
  by (simp add: raw16_def)

lemma raw_event_size_irrelevant:
  "octo_raw_event priv jiffies report_id data sz' = octo_raw_event priv jiffies report_id data sz"
  by (simp add: octo_raw_event_def)

lemma truncated_products_in_range:
  assumes "map uint vs = map (\<lambda>off. 10 * raw16 data off mod 65536) offs"
  shows "list_all2 (\<lambda>v off. 10 * raw16 data off < 65536 \<longrightarrow> uint v = 10 * raw16 data off)
    vs offs"
proof -
  have "list_all2 (=) (map uint vs) (map (\<lambda>off. 10 * raw16 data off mod 65536) offs)"
    using assms by (simp add: list_all2_eq)
  then have "list_all2 (\<lambda>v off. uint v = 10 * raw16 data off mod 65536) vs offs"
    by (simp add: list_all2_map1 list_all2_map2)
  then show ?thesis
  proof (rule list_all2_mono)
    fix v off
    assume e: "uint v = 10 * raw16 data off mod 65536"
    show "10 * raw16 data off < 65536 \<longrightarrow> uint v = 10 * raw16 data off"
    proof
      assume "10 * raw16 data off < 65536"
      moreover have "0 \<le> 10 * raw16 data off"
        using raw16_nonneg [of data off] by simp
      ultimately have "10 * raw16 data off mod 65536 = 10 * raw16 data off"
        by (intro mod_pos_pos_trivial)
      with e show "uint v = 10 * raw16 data off" by simp
    qed
  qed
qed

text \<open>
  C2, amended: the decoder makes no length check and has no malformed result. For every
  status report of whatever size, also one below 226, in a buffer that holds the 226
  bytes read, \<open>octo_raw_event\<close> returns 0 and replaces the device data by what it
  decodes from the buffer: the two parts of the serial number, the firmware version and
  the power-cycle count are the big-endian numbers at their offsets, the sensor readings
  are the scaled big-endian numbers at theirs (a voltage when ten times its raw value is
  below 65536), and the time of the last update is the current time; the result is the
  same as for any other size. (When the buffer itself is shorter, a read falls outside it,
  \<open>raw_event_short_buffer\<close>; no error is returned then either.)
\<close>

theorem raw_event_ignores_size:
  assumes "226 \<le> length data"
  shows "\<exists>s. octo_raw_event priv jiffies OCTO_STATUS_REPORT_ID data sz = Some (0, s)
    \<and> map uint (serial_number s) =
        map (raw16 data) [OCTO_SERIAL_FIRST_PART, OCTO_SERIAL_SECOND_PART]
    \<and> uint (firmware_version s) = raw16 data OCTO_FIRMWARE_VERSION
    \<and> uint (power_cycles s) = raw32 data OCTO_POWER_CYCLES
    \<and> map sint (temp_input s) =
        map (\<lambda>off. 10 * raw16 data off) [OCTO_TEMP1, OCTO_TEMP2, OCTO_TEMP3, OCTO_TEMP4]
    \<and> map uint (speed_input s) =
        raw16 data OCTO_FLOW_SPEED div 10 #
        map (raw16 data)
          [OCTO_FAN1_SPEED, OCTO_FAN2_SPEED, OCTO_FAN3_SPEED, OCTO_FAN4_SPEED,
           OCTO_FAN5_SPEED, OCTO_FAN6_SPEED, OCTO_FAN7_SPEED, OCTO_FAN8_SPEED]
    \<and> map uint (power_input s) =
        map (\<lambda>off. 10000 * raw16 data off)
          [OCTO_FAN1_POWER, OCTO_FAN2_POWER, OCTO_FAN3_POWER, OCTO_FAN4_POWER,
           OCTO_FAN5_POWER, OCTO_FAN6_POWER, OCTO_FAN7_POWER, OCTO_FAN8_POWER]
    \<and> list_all2 (\<lambda>v off. 10 * raw16 data off < 65536 \<longrightarrow> uint v = 10 * raw16 data off)
        (voltage_input s)
        [OCTO_VOLTAGE, OCTO_FAN1_VOLTAGE, OCTO_FAN2_VOLTAGE, OCTO_FAN3_VOLTAGE,
         OCTO_FAN4_VOLTAGE, OCTO_FAN5_VOLTAGE, OCTO_FAN6_VOLTAGE, OCTO_FAN7_VOLTAGE,
         OCTO_FAN8_VOLTAGE]
    \<and> map uint (current_input s) =
        map (raw16 data)
          [OCTO_FAN1_CURRENT, OCTO_FAN2_CURRENT, OCTO_FAN3_CURRENT, OCTO_FAN4_CURRENT,
           OCTO_FAN5_CURRENT, OCTO_FAN6_CURRENT, OCTO_FAN7_CURRENT, OCTO_FAN8_CURRENT]
    \<and> updated s = jiffies
    \<and> octo_raw_event priv jiffies OCTO_STATUS_REPORT_ID data sz' = Some (0, s)"
proof -
  from raw_event_decodes [OF assms, of priv jiffies sz]
  obtain s where s: "octo_raw_event priv jiffies OCTO_STATUS_REPORT_ID data sz = Some (0, s)"
    and t: "map sint (temp_input s) =
        map (\<lambda>off. 10 * raw16 data off) [OCTO_TEMP1, OCTO_TEMP2, OCTO_TEMP3, OCTO_TEMP4]"
    and f: "map uint (speed_input s) =
        raw16 data OCTO_FLOW_SPEED div 10 #
        map (raw16 data)
          [OCTO_FAN1_SPEED, OCTO_FAN2_SPEED, OCTO_FAN3_SPEED, OCTO_FAN4_SPEED,
           OCTO_FAN5_SPEED, OCTO_FAN6_SPEED, OCTO_FAN7_SPEED, OCTO_FAN8_SPEED]"
    and p: "map uint (power_input s) =
        map (\<lambda>off. 10000 * raw16 data off)
          [OCTO_FAN1_POWER, OCTO_FAN2_POWER, OCTO_FAN3_POWER, OCTO_FAN4_POWER,
           OCTO_FAN5_POWER, OCTO_FAN6_POWER, OCTO_FAN7_POWER, OCTO_FAN8_POWER]"
    and v: "map uint (voltage_input s) =
        map (\<lambda>off. 10 * raw16 data off mod 65536)
          [OCTO_VOLTAGE, OCTO_FAN1_VOLTAGE, OCTO_FAN2_VOLTAGE, OCTO_FAN3_VOLTAGE,
           OCTO_FAN4_VOLTAGE, OCTO_FAN5_VOLTAGE, OCTO_FAN6_VOLTAGE, OCTO_FAN7_VOLTAGE,
           OCTO_FAN8_VOLTAGE]"
    and c: "map uint (current_input s) =
        map (raw16 data)
          [OCTO_FAN1_CURRENT, OCTO_FAN2_CURRENT, OCTO_FAN3_CURRENT, OCTO_FAN4_CURRENT,
           OCTO_FAN5_CURRENT, OCTO_FAN6_CURRENT, OCTO_FAN7_CURRENT, OCTO_FAN8_CURRENT]"
    and i: "map uint (serial_number s) =
        map (raw16 data) [OCTO_SERIAL_FIRST_PART, OCTO_SERIAL_SECOND_PART]"
      "uint (firmware_version s) = raw16 data OCTO_FIRMWARE_VERSION"
      "uint (power_cycles s) = raw32 data OCTO_POWER_CYCLES"
    and u: "updated s = jiffies"
    by (elim exE conjE) (rule that)
  have s': "octo_raw_event priv jiffies OCTO_STATUS_REPORT_ID data sz' = Some (0, s)"
    using s by (simp only: raw_event_size_irrelevant [of priv jiffies _ data sz' sz])
  note v' = truncated_products_in_range [OF v]
  show ?thesis
    by (intro exI [of _ s] conjI s i t f p v' c u s')
qed

theorem raw_event_ignores_size_witness:
  "(226 :: nat) \<le> length
      (report_with [(3, 0x30), (4, 0x39), (5, 0x02), (6, 0xA6), (13, 0x03), (14, 0xFD),
                    (26, 0x01), (27, 0x2C), (61, 0x00), (62, 0xC8), (123, 0x00),
                    (124, 0x32), (131, 0x00), (132, 0x01), (117, 0x00), (118, 0x05),
                    (129, 0x00), (130, 0x07)])
   \<and> (\<exists>s. octo_raw_event kzalloc_octo_data 5000 OCTO_STATUS_REPORT_ID
          (report_with [(3, 0x30), (4, 0x39), (5, 0x02), (6, 0xA6), (13, 0x03), (14, 0xFD),
                        (26, 0x01), (27, 0x2C), (61, 0x00), (62, 0xC8), (123, 0x00),
                        (124, 0x32), (131, 0x00), (132, 0x01), (117, 0x00), (118, 0x05),
                        (129, 0x00), (130, 0x07)]) 8 = Some (0, s)
        \<and> map uint (serial_number s) = [12345, 678]
        \<and> uint (firmware_version s) = 1021
        \<and> uint (power_cycles s) = 300
        \<and> map sint (temp_input s) = [2000, 0, 0, 0]
        \<and> map uint (speed_input s) = [5, 0, 0, 0, 0, 0, 0, 0, 0]
        \<and> map uint (power_input s) = [10000, 0, 0, 0, 0, 0, 0, 0]
        \<and> map uint (voltage_input s) = [50, 0, 0, 0, 0, 0, 0, 0, 0]
        \<and> map uint (current_input s) = [7, 0, 0, 0, 0, 0, 0, 0]
        \<and> updated s = 5000
        \<and> octo_raw_event kzalloc_octo_data 5000 OCTO_STATUS_REPORT_ID
          (report_with [(3, 0x30), (4, 0x39), (5, 0x02), (6, 0xA6), (13, 0x03), (14, 0xFD),
                        (26, 0x01), (27, 0x2C), (61, 0x00), (62, 0xC8), (123, 0x00),
                        (124, 0x32), (131, 0x00), (132, 0x01), (117, 0x00), (118, 0x05),
                        (129, 0x00), (130, 0x07)]) 226 = Some (0, s))"
proof -
  let ?r = "report_with [(3, 0x30), (4, 0x39), (5, 0x02), (6, 0xA6), (13, 0x03), (14, 0xFD),
      (26, 0x01), (27, 0x2C), (61, 0x00), (62, 0xC8), (123, 0x00), (124, 0x32),
      (131, 0x00), (132, 0x01), (117, 0x00), (118, 0x05), (129, 0x00), (130, 0x07)]"
  have h: "226 \<le> length ?r"
    by (simp add: report_with_def)
  have v: "map (raw16 ?r) [OCTO_SERIAL_FIRST_PART, OCTO_SERIAL_SECOND_PART] = [12345, 678]"
    "raw16 ?r OCTO_FIRMWARE_VERSION = 1021" "raw32 ?r OCTO_POWER_CYCLES = 300"
    "map (\<lambda>off. 10 * raw16 ?r off) [OCTO_TEMP1, OCTO_TEMP2, OCTO_TEMP3, OCTO_TEMP4] =
       [2000, 0, 0, 0]"
    "raw16 ?r OCTO_FLOW_SPEED div 10 #
       map (raw16 ?r)
         [OCTO_FAN1_SPEED, OCTO_FAN2_SPEED, OCTO_FAN3_SPEED, OCTO_FAN4_SPEED,
          OCTO_FAN5_SPEED, OCTO_FAN6_SPEED, OCTO_FAN7_SPEED, OCTO_FAN8_SPEED] =
       [5, 0, 0, 0, 0, 0, 0, 0, 0]"
    "map (\<lambda>off. 10000 * raw16 ?r off)
         [OCTO_FAN1_POWER, OCTO_FAN2_POWER, OCTO_FAN3_POWER, OCTO_FAN4_POWER,
          OCTO_FAN5_POWER, OCTO_FAN6_POWER, OCTO_FAN7_POWER, OCTO_FAN8_POWER] =
       [10000, 0, 0, 0, 0, 0, 0, 0]"
    "map (raw16 ?r)
         [OCTO_VOLTAGE, OCTO_FAN1_VOLTAGE, OCTO_FAN2_VOLTAGE, OCTO_FAN3_VOLTAGE,
          OCTO_FAN4_VOLTAGE, OCTO_FAN5_VOLTAGE, OCTO_FAN6_VOLTAGE, OCTO_FAN7_VOLTAGE,
          OCTO_FAN8_VOLTAGE] =
       [5, 0, 0, 0, 0, 0, 0, 0, 0]"
    "map (raw16 ?r)
         [OCTO_FAN1_CURRENT, OCTO_FAN2_CURRENT, OCTO_FAN3_CURRENT, OCTO_FAN4_CURRENT,
          OCTO_FAN5_CURRENT, OCTO_FAN6_CURRENT, OCTO_FAN7_CURRENT, OCTO_FAN8_CURRENT] =
       [7, 0, 0, 0, 0, 0, 0, 0]"
    by (simp_all add: raw16_def raw32_def report_with_def octo_offsets)
  from raw_event_ignores_size [OF h, of kzalloc_octo_data 5000 8 226]
  obtain s where s: "octo_raw_event kzalloc_octo_data 5000 OCTO_STATUS_REPORT_ID ?r 8 = Some (0, s)"
    and i: "map uint (serial_number s) =
        map (raw16 ?r) [OCTO_SERIAL_FIRST_PART, OCTO_SERIAL_SECOND_PART]"
      "uint (firmware_version s) = raw16 ?r OCTO_FIRMWARE_VERSION"
      "uint (power_cycles s) = raw32 ?r OCTO_POWER_CYCLES"
    and t: "map sint (temp_input s) =
        map (\<lambda>off. 10 * raw16 ?r off) [OCTO_TEMP1, OCTO_TEMP2, OCTO_TEMP3, OCTO_TEMP4]"
    and f: "map uint (speed_input s) =
        raw16 ?r OCTO_FLOW_SPEED div 10 #
        map (raw16 ?r)
          [OCTO_FAN1_SPEED, OCTO_FAN2_SPEED, OCTO_FAN3_SPEED, OCTO_FAN4_SPEED,
           OCTO_FAN5_SPEED, OCTO_FAN6_SPEED, OCTO_FAN7_SPEED, OCTO_FAN8_SPEED]"
    and p: "map uint (power_input s) =
        map (\<lambda>off. 10000 * raw16 ?r off)
          [OCTO_FAN1_POWER, OCTO_FAN2_POWER, OCTO_FAN3_POWER, OCTO_FAN4_POWER,
           OCTO_FAN5_POWER, OCTO_FAN6_POWER, OCTO_FAN7_POWER, OCTO_FAN8_POWER]"
    and l: "list_all2 (\<lambda>v off. 10 * raw16 ?r off < 65536 \<longrightarrow> uint v = 10 * raw16 ?r off)
        (voltage_input s)
        [OCTO_VOLTAGE, OCTO_FAN1_VOLTAGE, OCTO_FAN2_VOLTAGE, OCTO_FAN3_VOLTAGE,
         OCTO_FAN4_VOLTAGE, OCTO_FAN5_VOLTAGE, OCTO_FAN6_VOLTAGE, OCTO_FAN7_VOLTAGE,
         OCTO_FAN8_VOLTAGE]"
    and c: "map uint (current_input s) =
        map (raw16 ?r)
          [OCTO_FAN1_CURRENT, OCTO_FAN2_CURRENT, OCTO_FAN3_CURRENT, OCTO_FAN4_CURRENT,
           OCTO_FAN5_CURRENT, OCTO_FAN6_CURRENT, OCTO_FAN7_CURRENT, OCTO_FAN8_CURRENT]"
    and u: "updated s = 5000"
    and s': "octo_raw_event kzalloc_octo_data 5000 OCTO_STATUS_REPORT_ID ?r 226 = Some (0, s)"
    by (elim exE conjE) (rule that)
  have q: "raw16 ?r OCTO_VOLTAGE = 5" "raw16 ?r OCTO_FAN1_VOLTAGE = 0"
    "raw16 ?r OCTO_FAN2_VOLTAGE = 0" "raw16 ?r OCTO_FAN3_VOLTAGE = 0"
    "raw16 ?r OCTO_FAN4_VOLTAGE = 0" "raw16 ?r OCTO_FAN5_VOLTAGE = 0"
    "raw16 ?r OCTO_FAN6_VOLTAGE = 0" "raw16 ?r OCTO_FAN7_VOLTAGE = 0"
    "raw16 ?r OCTO_FAN8_VOLTAGE = 0"
    using v(7) by simp_all
  from l have l': "map uint (voltage_input s) = [50, 0, 0, 0, 0, 0, 0, 0, 0]"
    by (auto simp only: list_all2_Cons2 list_all2_Nil2 q list.map)
  show ?thesis
    by (intro conjI h exI [of _ s] s s' u l' i [unfolded v] t [unfolded v] f [unfolded v]
        p [unfolded v] c [unfolded v])
qed

subsection \<open>Decoding depends on the bytes only\<close>

text \<open>
  C9: two status reports with the same bytes, long enough for every field, decode to the
  same sensor readings and the same identity data, whatever the device data held before,
  whatever the time and whatever the size passed along: decoding is a function of the
  bytes.
\<close>

theorem decode_deterministic:
  assumes "226 \<le> length data"
  shows "\<exists>s s'. octo_raw_event priv jiffies OCTO_STATUS_REPORT_ID data sz = Some (0, s)
    \<and> octo_raw_event priv' jiffies' OCTO_STATUS_REPORT_ID data sz' = Some (0, s')
    \<and> snapshot_of s = snapshot_of s' \<and> identity_of s = identity_of s'"
  using assms
  by (simp add: octo_raw_event_def get_unaligned_be16_def get_unaligned_be32_def octo_offsets
      snapshot_of_def identity_of_def)

theorem decode_deterministic_witness:
  "(226 :: nat) \<le> length (report_with [(61, 0x00), (62, 0xC8)])
   \<and> (\<exists>s s'. octo_raw_event kzalloc_octo_data 5000 OCTO_STATUS_REPORT_ID
          (report_with [(61, 0x00), (62, 0xC8)]) 226 = Some (0, s)
        \<and> octo_raw_event (kzalloc_octo_data\<lparr>temp_input := [1, 2, 3, 4], updated := 77\<rparr>) 9000
          OCTO_STATUS_REPORT_ID (report_with [(61, 0x00), (62, 0xC8)]) 226 = Some (0, s')
        \<and> snapshot_of s = snapshot_of s' \<and> identity_of s = identity_of s')"
proof -
  have h: "226 \<le> length (report_with [(61, 0x00), (62, 0xC8)])"
    by (simp add: report_with_def)
  show ?thesis
    using h decode_deterministic [OF h, of kzalloc_octo_data 5000 226
        "kzalloc_octo_data\<lparr>temp_input := [1, 2, 3, 4], updated := 77\<rparr>" 9000 226]
    by simp
qed

subsection \<open>Staleness\<close>

text \<open>
  C4 as stated does not hold. It says that a read succeeds exactly when the time since the
  last update is less than the interval. \<open>octo_read\<close> fails only when \<open>jiffies\<close> is
  after the last update plus the interval: with \<open>HZ = 250\<close> and the last update at jiffy
  1000, the read at jiffy 1500, exactly one interval later, succeeds.
\<close>

theorem octo_read_at_interval_counterexample:
  "octo_read (kzalloc_octo_data\<lparr>updated := 1000\<rparr>) 1500 250 hwmon_temp 0 0 = Inr 0
   \<and> \<not> unat (1500 - updated (kzalloc_octo_data\<lparr>updated := 1000\<rparr>))
        < unat (OCTO_STATUS_UPDATE_INTERVAL 250)"
  by (simp add: read_eval)

lemma stored_in_range:
  "0 \<le> channel \<Longrightarrow> channel < int (length xs) \<Longrightarrow>
     stored conv xs channel = Inr (conv (xs ! nat channel))"
  by (simp add: stored_def array_at_def)

lemma octo_read_in_range:
  assumes "octo_data_sized priv" "map_of octo_info type = Some n" "0 \<le> channel"
    "channel < int n"
  shows "\<exists>v. sint v = stored_value priv type (nat channel)
    \<and> octo_read priv jiffies hz type attr channel =
        (if time_after jiffies (updated priv + OCTO_STATUS_UPDATE_INTERVAL hz)
         then Inl (Errno (- ENODATA)) else Inr v)"
proof -
  consider "type = hwmon_temp" "n = 4" | "type = hwmon_fan" "n = 9"
    | "type = hwmon_power" "n = 8" | "type = hwmon_in" "n = 9" | "type = hwmon_curr" "n = 8"
    using octo_info_cases [OF assms(2)] by blast
  then show ?thesis
  proof cases
    case 1
    with assms show ?thesis
      by (intro exI [of _ "long_of_s32 (temp_input priv ! nat channel)"])
        (simp add: octo_read_def octo_data_sized_def stored_in_range sint_long_of_s32)
  next
    case 2
    with assms show ?thesis
      by (intro exI [of _ "long_of_u16 (speed_input priv ! nat channel)"])
        (simp add: octo_read_def octo_data_sized_def stored_in_range sint_long_of_u16)
  next
    case 3
    with assms show ?thesis
      by (intro exI [of _ "long_of_u32 (power_input priv ! nat channel)"])
        (simp add: octo_read_def octo_data_sized_def stored_in_range sint_long_of_u32)
  next
    case 4
    with assms show ?thesis
      by (intro exI [of _ "long_of_u16 (voltage_input priv ! nat channel)"])
        (simp add: octo_read_def octo_data_sized_def stored_in_range sint_long_of_u16)
  next
    case 5
    with assms show ?thesis
      by (intro exI [of _ "long_of_u16 (current_input priv ! nat channel)"])
        (simp add: octo_read_def octo_data_sized_def stored_in_range sint_long_of_u16)
  qed
qed

text \<open>
  C4, amended: for device data with arrays of the declared sizes and every channel in
  range, \<open>octo_read\<close> succeeds and returns the stored value exactly when the time since
  the last update is at most the interval of \<open>2 * HZ\<close> jiffies, and fails with
  \<open>-ENODATA\<close> when it is more. The elapsed time is the difference of the two jiffies
  counters modulo \<open>2 ^ 64\<close> and is taken to be below \<open>2 ^ 63\<close>; \<open>HZ\<close> is below
  \<open>2 ^ 62\<close>. In particular a read right after an update succeeds.
\<close>

theorem octo_read_fresh_iff:
  assumes "octo_data_sized priv" "map_of octo_info type = Some n" "0 \<le> channel"
    "channel < int n" "unat hz < 2 ^ 62" "unat (jiffies - updated priv) < 2 ^ 63"
  shows "(unat (jiffies - updated priv) \<le> 2 * unat hz \<longrightarrow>
      (\<exists>v. octo_read priv jiffies hz type attr channel = Inr v
         \<and> sint v = stored_value priv type (nat channel)))
    \<and> (2 * unat hz < unat (jiffies - updated priv) \<longrightarrow>
      octo_read priv jiffies hz type attr channel = Inl (Errno (- ENODATA)))"
proof -
  have "time_after jiffies (updated priv + OCTO_STATUS_UPDATE_INTERVAL hz) \<longleftrightarrow>
      2 * unat hz < unat (jiffies - updated priv)"
    using assms(5,6) by (rule time_after_elapsed)
  with octo_read_in_range [OF assms(1-4), of jiffies hz attr] show ?thesis
    by auto
qed

theorem octo_read_fresh_iff_witness:
  "octo_data_sized (kzalloc_octo_data\<lparr>temp_input := [2000, 0, 0, 0], updated := 1000\<rparr>)
   \<and> map_of octo_info hwmon_temp = Some 4 \<and> (0 :: int) \<le> 0 \<and> (0 :: int) < int 4
   \<and> unat (250 :: ulong) < 2 ^ 62
   \<and> unat (1500 - updated (kzalloc_octo_data\<lparr>temp_input := [2000, 0, 0, 0], updated := 1000\<rparr>))
       \<le> 2 * unat (250 :: ulong)
   \<and> 2 * unat (250 :: ulong)
       < unat (1501 - updated (kzalloc_octo_data\<lparr>temp_input := [2000, 0, 0, 0], updated := 1000\<rparr>))
   \<and> unat (1501 - updated (kzalloc_octo_data\<lparr>temp_input := [2000, 0, 0, 0], updated := 1000\<rparr>))
       < 2 ^ 63
   \<and> (\<exists>v. octo_read (kzalloc_octo_data\<lparr>temp_input := [2000, 0, 0, 0], updated := 1000\<rparr>)
          1500 250 hwmon_temp 0 0 = Inr v \<and> sint v = 2000)
   \<and> octo_read (kzalloc_octo_data\<lparr>temp_input := [2000, 0, 0, 0], updated := 1000\<rparr>)
        1501 250 hwmon_temp 0 0 = Inl (Errno (- ENODATA))"
proof -
  let ?p = "kzalloc_octo_data\<lparr>temp_input := [2000, 0, 0, 0], updated := 1000\<rparr>"
  have s: "octo_data_sized ?p"
    by (simp add: octo_data_sized_def kzalloc_octo_data_def)
  have t: "map_of octo_info hwmon_temp = Some 4"
    by (simp add: octo_info_def)
  have c: "(0 :: int) \<le> 0" "(0 :: int) < int 4" by simp_all
  have z: "unat (250 :: ulong) < 2 ^ 62" by simp
  have e1: "unat (1500 - updated ?p) < 2 ^ 63" and e2: "unat (1501 - updated ?p) < 2 ^ 63"
    by simp_all
  show ?thesis
    using s t z e2
      octo_read_fresh_iff [OF s t c z e1, of 0]
      octo_read_fresh_iff [OF s t c z e2, of 0]
    by simp
qed

text \<open>Right after a status report every read of a channel in range succeeds.\<close>

lemma octo_read_after_publish:
  assumes "octo_raw_event priv jiffies OCTO_STATUS_REPORT_ID data sz = Some (r, s)"
    "map_of octo_info type = Some n" "0 \<le> channel" "channel < int n" "unat hz < 2 ^ 62"
  shows "\<exists>v. octo_read s jiffies hz type attr channel = Inr v
    \<and> sint v = stored_value s type (nat channel)"
proof -
  have u: "updated s = jiffies"
    using assms(1)
    by (auto simp: octo_raw_event_def OCTO_STATUS_REPORT_ID_def bind_eq_Some_conv)
  have "\<not> time_after jiffies (updated s + OCTO_STATUS_UPDATE_INTERVAL hz)"
    using assms(5) by (subst time_after_elapsed) (simp_all add: u)
  with octo_read_in_range [OF raw_event_sized [OF assms(1)] assms(2-4), of jiffies hz attr]
  show ?thesis by auto
qed

subsection \<open>Channel indices\<close>

text \<open>
  C7 as stated does not hold. It says that a query with a channel index outside the range
  of its sensor type fails with an error for the invalid channel. Neither \<open>octo_read\<close>
  nor \<open>octo_read_string\<close> compares the index with anything: with index 4 for a
  temperature, both index their four-element array at 4, and \<open>octo_read\<close> on stale
  data returns \<open>-ENODATA\<close> before it gets there.
\<close>

theorem channel_out_of_range_counterexample:
  "octo_read_string kzalloc_octo_data hwmon_temp 0 4 = Inl OutOfBounds
   \<and> octo_read (kzalloc_octo_data\<lparr>updated := 1000\<rparr>) 1000 250 hwmon_temp 0 4 = Inl OutOfBounds
   \<and> octo_read (kzalloc_octo_data\<lparr>updated := 1000\<rparr>) 2000 250 hwmon_temp 0 4 =
       Inl (Errno (- ENODATA))"
  by (simp add: octo_read_string_def label_at_def label_temps_def read_eval)

lemma stored_out_of_range:
  "channel < 0 \<or> int (length xs) \<le> channel \<Longrightarrow> stored conv xs channel = Inl OutOfBounds"
  by (auto simp: stored_def array_at_def)

lemma label_at_out_of_range:
  "channel < 0 \<or> int (length xs) \<le> channel \<Longrightarrow> label_at xs channel = Inl OutOfBounds"
  by (auto simp: label_at_def array_at_def)

lemma label_at_in_range:
  "0 \<le> channel \<Longrightarrow> channel < int (length xs) \<Longrightarrow> label_at xs channel = Inr (xs ! nat channel)"
  by (simp add: label_at_def array_at_def)

lemma label_lengths:
  "length label_temps = 4" "length label_speeds = 9" "length label_power = 8"
  "length label_voltages = 9" "length label_current = 8"
  by (simp_all add: label_temps_def label_speeds_def label_power_def label_voltages_def
      label_current_def)

lemma octo_info_None:
  "map_of octo_info type = None \<Longrightarrow>
     type \<noteq> hwmon_temp \<and> type \<noteq> hwmon_fan \<and> type \<noteq> hwmon_power \<and> type \<noteq> hwmon_in
     \<and> type \<noteq> hwmon_curr"
  by (auto simp: octo_info_def split: if_splits)

text \<open>
  C7, amended: the driver validates the sensor type and not the channel index. For one of
  the five sensor types and an index outside its range, no error is returned for the
  index: \<open>octo_read_string\<close> indexes the label table outside its bounds, and
  \<open>octo_read\<close> returns \<open>-ENODATA\<close> when the data are stale and otherwise indexes the
  array outside its bounds. For any other sensor type both fail with \<open>-EOPNOTSUPP\<close>
  (\<open>octo_read\<close> after the staleness test).
\<close>

theorem channel_index_not_validated:
  "(octo_data_sized priv \<and> map_of octo_info type = Some n \<and> (channel < 0 \<or> int n \<le> channel)
      \<longrightarrow> octo_read_string priv type attr channel = Inl OutOfBounds
        \<and> octo_read priv jiffies hz type attr channel =
            (if time_after jiffies (updated priv + OCTO_STATUS_UPDATE_INTERVAL hz)
             then Inl (Errno (- ENODATA)) else Inl OutOfBounds))
   \<and> (map_of octo_info type = None
      \<longrightarrow> octo_read_string priv type attr channel = Inl (Errno (- EOPNOTSUPP))
        \<and> octo_read priv jiffies hz type attr channel =
            (if time_after jiffies (updated priv + OCTO_STATUS_UPDATE_INTERVAL hz)
             then Inl (Errno (- ENODATA)) else Inl (Errno (- EOPNOTSUPP))))"
proof (intro conjI impI)
  assume a: "octo_data_sized priv \<and> map_of octo_info type = Some n
    \<and> (channel < 0 \<or> int n \<le> channel)"
  then have t: "type = hwmon_temp \<and> n = 4 \<or> type = hwmon_fan \<and> n = 9
      \<or> type = hwmon_power \<and> n = 8 \<or> type = hwmon_in \<and> n = 9 \<or> type = hwmon_curr \<and> n = 8"
    by (intro octo_info_cases) simp
  from a t show "octo_read_string priv type attr channel = Inl OutOfBounds"
    by (auto simp: octo_read_string_def label_at_out_of_range label_lengths)
  from a t show "octo_read priv jiffies hz type attr channel =
      (if time_after jiffies (updated priv + OCTO_STATUS_UPDATE_INTERVAL hz)
       then Inl (Errno (- ENODATA)) else Inl OutOfBounds)"
    by (auto simp: octo_read_def octo_data_sized_def stored_out_of_range)
next
  assume "map_of octo_info type = None"
  then have t: "type \<noteq> hwmon_temp \<and> type \<noteq> hwmon_fan \<and> type \<noteq> hwmon_power
      \<and> type \<noteq> hwmon_in \<and> type \<noteq> hwmon_curr"
    by (rule octo_info_None)
  from t show "octo_read_string priv type attr channel = Inl (Errno (- EOPNOTSUPP))"
    by (cases type) (simp_all add: octo_read_string_def)
  from t show "octo_read priv jiffies hz type attr channel =
      (if time_after jiffies (updated priv + OCTO_STATUS_UPDATE_INTERVAL hz)
       then Inl (Errno (- ENODATA)) else Inl (Errno (- EOPNOTSUPP)))"
    by (cases type) (simp_all add: octo_read_def)
qed

theorem channel_index_not_validated_witness:
  "octo_data_sized (kzalloc_octo_data\<lparr>updated := 1000\<rparr>)
   \<and> map_of octo_info hwmon_temp = Some 4 \<and> int 4 \<le> 4
   \<and> map_of octo_info hwmon_pwm = None
   \<and> octo_read_string (kzalloc_octo_data\<lparr>updated := 1000\<rparr>) hwmon_temp 0 4 = Inl OutOfBounds
   \<and> octo_read (kzalloc_octo_data\<lparr>updated := 1000\<rparr>) 1000 250 hwmon_temp 0 4 = Inl OutOfBounds
   \<and> octo_read_string (kzalloc_octo_data\<lparr>updated := 1000\<rparr>) hwmon_pwm 0 0 =
       Inl (Errno (- EOPNOTSUPP))
   \<and> octo_read (kzalloc_octo_data\<lparr>updated := 1000\<rparr>) 1000 250 hwmon_pwm 0 0 =
       Inl (Errno (- EOPNOTSUPP))"
proof -
  let ?p = "kzalloc_octo_data\<lparr>updated := 1000\<rparr>"
  have s: "octo_data_sized ?p"
    by (simp add: octo_data_sized_def kzalloc_octo_data_def)
  have t: "map_of octo_info hwmon_temp = Some 4" "map_of octo_info hwmon_pwm = None"
    by (simp_all add: octo_info_def)
  have f: "\<not> time_after 1000 (updated ?p + OCTO_STATUS_UPDATE_INTERVAL 250)"
    by (simp add: time_after_def OCTO_STATUS_UPDATE_INTERVAL_def)
  show ?thesis
    using s t f
      channel_index_not_validated [of ?p hwmon_temp 4 4 0 1000 250]
      channel_index_not_validated [of ?p hwmon_pwm 4 0 0 1000 250]
    by simp
qed

subsection \<open>Labels and identity data\<close>

text \<open>
  C8: for every sensor type, every channel in range and every device data,
  \<open>octo_read_string\<close> succeeds and returns the entry of the type's label table. The
  three debugfs files print the serial number, the firmware version and the power-cycle
  count held in the device data: they do not depend on the time of the last update, they
  show zeros after the probe, before any report, and after a status report they show the
  values at the offsets of that report.
\<close>

theorem labels_and_identity_without_freshness:
  "(0 \<le> channel \<and> channel < 4 \<longrightarrow>
      octo_read_string priv hwmon_temp attr channel = Inr (label_temps ! nat channel))
   \<and> (0 \<le> channel \<and> channel < 9 \<longrightarrow>
      octo_read_string priv hwmon_fan attr channel = Inr (label_speeds ! nat channel))
   \<and> (0 \<le> channel \<and> channel < 8 \<longrightarrow>
      octo_read_string priv hwmon_power attr channel = Inr (label_power ! nat channel))
   \<and> (0 \<le> channel \<and> channel < 9 \<longrightarrow>
      octo_read_string priv hwmon_in attr channel = Inr (label_voltages ! nat channel))
   \<and> (0 \<le> channel \<and> channel < 8 \<longrightarrow>
      octo_read_string priv hwmon_curr attr channel = Inr (label_current ! nat channel))
   \<and> serial_number_show (priv\<lparr>updated := t\<rparr>) = serial_number_show priv
   \<and> firmware_version_show (priv\<lparr>updated := t\<rparr>) = firmware_version_show priv
   \<and> power_cycles_show (priv\<lparr>updated := t\<rparr>) = power_cycles_show priv
   \<and> (octo_probe env jiffies hz = (0, Some p) \<longrightarrow>
      serial_number_show p = Inr ''00000-00000\<newline>''
      \<and> firmware_version_show p = Inr ''0\<newline>''
      \<and> power_cycles_show p = Inr ''0\<newline>'')
   \<and> (octo_raw_event priv jiffies OCTO_STATUS_REPORT_ID data sz = Some (0, s) \<longrightarrow>
      serial_number_show s =
        Inr (fmt_05u (nat (raw16 data OCTO_SERIAL_FIRST_PART)) @ ''-''
             @ fmt_05u (nat (raw16 data OCTO_SERIAL_SECOND_PART)) @ ''\<newline>'')
      \<and> firmware_version_show s =
        Inr (fmt_u (nat (raw16 data OCTO_FIRMWARE_VERSION)) @ ''\<newline>'')
      \<and> power_cycles_show s =
        Inr (fmt_u (nat (raw32 data OCTO_POWER_CYCLES)) @ ''\<newline>''))"
proof (intro conjI impI)
  assume "octo_probe env jiffies hz = (0, Some p)"
  then have p: "p = kzalloc_octo_data\<lparr>updated := jiffies - OCTO_STATUS_UPDATE_INTERVAL hz\<rparr>"
    by (auto simp: octo_probe_def Let_def split: if_splits)
  show "serial_number_show p = Inr ''00000-00000\<newline>''"
    by (simp add: p kzalloc_octo_data_def show_eval)
  show "firmware_version_show p = Inr ''0\<newline>''"
    by (simp add: p kzalloc_octo_data_def show_eval)
  show "power_cycles_show p = Inr ''0\<newline>''"
    by (simp add: p kzalloc_octo_data_def show_eval)
next
  assume "octo_raw_event priv jiffies OCTO_STATUS_REPORT_ID data sz = Some (0, s)"
  then have s: "serial_number s =
      [u32_of_u16 (be16_bytes (data ! 3) (data ! 4)), u32_of_u16 (be16_bytes (data ! 5) (data ! 6))]"
    "firmware_version s = be16_bytes (data ! 13) (data ! 14)"
    "power_cycles s = be32_bytes (data ! 24) (data ! 25) (data ! 26) (data ! 27)"
    by (auto simp: octo_raw_event_def get_unaligned_be16_def get_unaligned_be32_def
        octo_offsets bind_eq_Some_conv split: if_splits)
  show "serial_number_show s =
      Inr (fmt_05u (nat (raw16 data OCTO_SERIAL_FIRST_PART)) @ ''-''
           @ fmt_05u (nat (raw16 data OCTO_SERIAL_SECOND_PART)) @ ''\<newline>'')"
    by (simp add: s serial_number_show_def array_at_def unat_eq_nat_uint uint_u32_of_u16
        uint_be16_bytes raw16_def octo_offsets)
  show "firmware_version_show s =
      Inr (fmt_u (nat (raw16 data OCTO_FIRMWARE_VERSION)) @ ''\<newline>'')"
    by (simp add: s firmware_version_show_def unat_eq_nat_uint uint_be16_bytes raw16_def
        octo_offsets)
  show "power_cycles_show s =
      Inr (fmt_u (nat (raw32 data OCTO_POWER_CYCLES)) @ ''\<newline>'')"
    by (simp add: s power_cycles_show_def unat_eq_nat_uint uint_be32_bytes raw32_def
        octo_offsets)
qed (simp_all add: octo_read_string_def label_at_in_range label_lengths
    serial_number_show_def firmware_version_show_def power_cycles_show_def)


theorem labels_and_identity_without_freshness_witness:
  "octo_read_string kzalloc_octo_data hwmon_temp 0 3 = Inr ''Temp4''
   \<and> octo_read_string kzalloc_octo_data hwmon_fan 0 0 = Inr ''Flow speed [l/h]''
   \<and> octo_read_string kzalloc_octo_data hwmon_power 0 7 = Inr ''Fan8 power''
   \<and> octo_read_string kzalloc_octo_data hwmon_in 0 8 = Inr ''Fan8 voltage''
   \<and> octo_read_string kzalloc_octo_data hwmon_curr 0 4 = Inr ''Fan1 current''
   \<and> octo_probe probe_ok 1000 250 = (0, Some (kzalloc_octo_data\<lparr>updated := 500\<rparr>))
   \<and> serial_number_show (kzalloc_octo_data\<lparr>updated := 500\<rparr>) = Inr ''00000-00000\<newline>''
   \<and> firmware_version_show (kzalloc_octo_data\<lparr>updated := 500\<rparr>) = Inr ''0\<newline>''
   \<and> power_cycles_show (kzalloc_octo_data\<lparr>updated := 500\<rparr>) = Inr ''0\<newline>''
   \<and> octo_raw_event kzalloc_octo_data 5000 OCTO_STATUS_REPORT_ID
        (report_with [(3, 0x30), (4, 0x39), (5, 0x02), (6, 0xA6), (13, 0x03), (14, 0xFD),
                      (26, 0x01), (27, 0x2C)]) 226 =
      Some (0,
        \<lparr>temp_input = [0, 0, 0, 0], speed_input = [0, 0, 0, 0, 0, 0, 0, 0, 0],
         power_input = [0, 0, 0, 0, 0, 0, 0, 0],
         voltage_input = [0, 0, 0, 0, 0, 0, 0, 0, 0],
         current_input = [0, 0, 0, 0, 0, 0, 0, 0], serial_number = [12345, 678],
         firmware_version = 1021, power_cycles = 300, updated = 5000\<rparr>)
   \<and> serial_number_show
        \<lparr>temp_input = [0, 0, 0, 0], speed_input = [0, 0, 0, 0, 0, 0, 0, 0, 0],
         power_input = [0, 0, 0, 0, 0, 0, 0, 0],
         voltage_input = [0, 0, 0, 0, 0, 0, 0, 0, 0],
         current_input = [0, 0, 0, 0, 0, 0, 0, 0], serial_number = [12345, 678],
         firmware_version = 1021, power_cycles = 300, updated = 5000\<rparr> =
      Inr ''12345-00678\<newline>''
   \<and> firmware_version_show
        \<lparr>temp_input = [0, 0, 0, 0], speed_input = [0, 0, 0, 0, 0, 0, 0, 0, 0],
         power_input = [0, 0, 0, 0, 0, 0, 0, 0],
         voltage_input = [0, 0, 0, 0, 0, 0, 0, 0, 0],
         current_input = [0, 0, 0, 0, 0, 0, 0, 0], serial_number = [12345, 678],
         firmware_version = 1021, power_cycles = 300, updated = 5000\<rparr> =
      Inr ''1021\<newline>''
   \<and> power_cycles_show
        \<lparr>temp_input = [0, 0, 0, 0], speed_input = [0, 0, 0, 0, 0, 0, 0, 0, 0],
         power_input = [0, 0, 0, 0, 0, 0, 0, 0],
         voltage_input = [0, 0, 0, 0, 0, 0, 0, 0, 0],
         current_input = [0, 0, 0, 0, 0, 0, 0, 0], serial_number = [12345, 678],
         firmware_version = 1021, power_cycles = 300, updated = 5000\<rparr> =
      Inr ''300\<newline>''"
proof -
  let ?r = "report_with [(3, 0x30), (4, 0x39), (5, 0x02), (6, 0xA6), (13, 0x03), (14, 0xFD),
      (26, 0x01), (27, 0x2C)]"
  let ?s = "\<lparr>temp_input = [0, 0, 0, 0], speed_input = [0, 0, 0, 0, 0, 0, 0, 0, 0],
      power_input = [0, 0, 0, 0, 0, 0, 0, 0], voltage_input = [0, 0, 0, 0, 0, 0, 0, 0, 0],
      current_input = [0, 0, 0, 0, 0, 0, 0, 0], serial_number = [12345, 678],
      firmware_version = 1021, power_cycles = 300, updated = 5000 :: ulong\<rparr>"
  have p: "octo_probe probe_ok 1000 250 = (0, Some (kzalloc_octo_data\<lparr>updated := 500\<rparr>))"
    by (simp add: octo_probe_def probe_ok_def OCTO_STATUS_UPDATE_INTERVAL_def)
  have e: "octo_raw_event kzalloc_octo_data 5000 OCTO_STATUS_REPORT_ID ?r 226 = Some (0, ?s)"
    by (simp add: octo_eval)
  have v: "nat (raw16 ?r OCTO_SERIAL_FIRST_PART) = 12345"
    "nat (raw16 ?r OCTO_SERIAL_SECOND_PART) = 678"
    "nat (raw16 ?r OCTO_FIRMWARE_VERSION) = 1021"
    "nat (raw32 ?r OCTO_POWER_CYCLES) = 300"
    by (simp_all add: raw16_def raw32_def report_with_def octo_offsets)
  have f: "fmt_05u 12345 = ''12345''" "fmt_05u 678 = ''00678''" "fmt_u 1021 = ''1021''"
    "fmt_u 300 = ''300''"
    by (simp_all add: show_eval)
  have l: "label_temps ! 3 = ''Temp4''" "label_speeds ! 0 = ''Flow speed [l/h]''"
    "label_power ! 7 = ''Fan8 power''" "label_voltages ! 8 = ''Fan8 voltage''"
    "label_current ! 4 = ''Fan1 current''"
    by (simp_all add: label_temps_def label_speeds_def label_power_def label_voltages_def
        label_current_def)
  note t = labels_and_identity_without_freshness
    [where priv = kzalloc_octo_data and attr = 0 and env = probe_ok and jiffies = 1000
      and hz = 250 and p = "kzalloc_octo_data\<lparr>updated := 500\<rparr>" and t = 0 and data = ?r
      and sz = 226 and s = ?s]
  note t' = labels_and_identity_without_freshness
    [where priv = kzalloc_octo_data and attr = 0 and env = probe_ok and jiffies = 5000
      and hz = 250 and p = "kzalloc_octo_data\<lparr>updated := 500\<rparr>" and t = 0 and data = ?r
      and sz = 226 and s = ?s]
  show ?thesis
    using p e t [where channel = 3] t [where channel = 0] t [where channel = 7]
      t [where channel = 8] t [where channel = 4] t' [where channel = 0]
    by (simp add: v f l)
qed

end
